theory Spec2Isabelle
  imports Complex_Main
begin

section \<open>Configuration (config.py)\<close>

text \<open>
  The module-level constants of \<^verbatim>\<open>config.py\<close> that the testing loop and the
  reward computation read.  Weights are Python integers in raw device units, the
  penalty constants and the exploration probabilities are the decimal literals of
  the source, read as the exact decimal numbers they denote.
\<close>

definition DEFAULT_SAFE_WEIGHT_MIN :: int where
  "DEFAULT_SAFE_WEIGHT_MIN = 74"

definition DEFAULT_SAFE_WEIGHT_MAX :: int where
  "DEFAULT_SAFE_WEIGHT_MAX = 76"

definition DEFAULT_OVERFLOW_PENALTY_CONSTANT :: real where
  "DEFAULT_OVERFLOW_PENALTY_CONSTANT = - 370.0"

definition DEFAULT_UNDERFLOW_PENALTY_CONSTANT :: real where
  "DEFAULT_UNDERFLOW_PENALTY_CONSTANT = - 100.0"

definition EXPLORATION_STEPS :: "int list" where
  "EXPLORATION_STEPS = [1, 2, 3, 4, 5]"

definition EXPLORATION_PROBABILITIES :: "real list" where
  "EXPLORATION_PROBABILITIES = [0.33, 0.27, 0.2, 0.13, 0.07]"

definition DEFAULT_WEIGHT_QUANTIZATION_STEP :: int where
  "DEFAULT_WEIGHT_QUANTIZATION_STEP = 10000"

text \<open>Strict descent of a list of numbers, by recursion on adjacent entries.\<close>

fun strictly_decreasing :: "real list \<Rightarrow> bool" where
  "strictly_decreasing [] = True"
| "strictly_decreasing [x] = True"
| "strictly_decreasing (x # y # zs) = (y < x \<and> strictly_decreasing (y # zs))"

text \<open>
  The categorical distribution the two configuration lists describe together:
  step distance paired with its probability, in list order.
\<close>

definition exploration_distribution :: "(int \<times> real) list" where
  "exploration_distribution = zip EXPLORATION_STEPS EXPLORATION_PROBABILITIES"

section \<open>Session statistics of the tester\<close>

record session_stats =
  total_episodes :: int
  successful_episodes :: int
  failed_episodes :: int
  safe_episodes :: int
  overflow_episodes :: int
  underflow_episodes :: int

definition init_session_stats :: session_stats where
  "init_session_stats =
     \<lparr>total_episodes = 0, successful_episodes = 0, failed_episodes = 0,
      safe_episodes = 0, overflow_episodes = 0, underflow_episodes = 0\<rparr>"

text \<open>
  The object built by \<^verbatim>\<open>create_filling_session\<close>; the tester reads two of its
  attributes.
\<close>

record filling_session =
  episode_length :: int
  session_final_weight :: int

text \<open>
  The dictionary returned by \<^verbatim>\<open>parse_raw_data\<close>, with the keys the tester
  reads; \<^verbatim>\<open>reward\<close> and \<^verbatim>\<open>filling_session\<close> are the two keys
  \<^verbatim>\<open>run_episode\<close> adds, absent (\<open>None\<close>) before that.
\<close>

record episode_data =
  raw_data :: string
  weight_sequence :: "int list"
  coarse_time :: int
  fine_time :: int
  total_time :: int
  switching_point :: int
  final_weight :: int
  overflow_amount :: int
  underflow_amount :: int
  reward :: "real option"
  filling_session :: "filling_session option"

definition update_session_stats :: "episode_data \<Rightarrow> session_stats \<Rightarrow> session_stats" where
  "update_session_stats ed st =
     (let st1 = st\<lparr>total_episodes := total_episodes st + 1\<rparr>;
          st2 = st1\<lparr>successful_episodes := successful_episodes st1 + 1\<rparr>
      in if overflow_amount ed > 0
         then st2\<lparr>overflow_episodes := overflow_episodes st2 + 1\<rparr>
         else if underflow_amount ed > 0
         then st2\<lparr>underflow_episodes := underflow_episodes st2 + 1\<rparr>
         else st2\<lparr>safe_episodes := safe_episodes st2 + 1\<rparr>)"

section \<open>The transcript bound inside the episode loop\<close>

text \<open>
  Line 123 of \<^verbatim>\<open>real_world_tester.py\<close> binds \<^verbatim>\<open>raw_data\<close> to a string
  literal (the call of the UDP client on line 122 is commented out).  The literal
  is reproduced character by character, cut into parts at field boundaries.
\<close>

definition raw_data_part1 :: string where
  "raw_data_part1 =
     ''1,    1;-   598,80955;-   611,    1;-   640,    2;-   667,    2;-   667,    0;-   644,    2;-   629,    1;-   598,    3;-   578,    2;-   581,    0;-   581,    0;-   581,    0;-   581,    0;-   581,    0;-   581,    0;-   581,    0;-   594,    1;-   594,    0;-   607,    1;-   612,    0;-   619,    0;-   645,    2;-   671,    2;-   676,    0;-   673,    0;-   673,    0;-   679,    0;-   701,    2;-   717,    1;-   726,    0;-   862,   13;-   929,    6;-  1009,    8;-  1024,    1;-  1060,    3;-  1085,    2;-  1204,   11;-  1204,    0;-  1204,    0;-  1204,    0;-  1204,    0;-  1204,    0;-  1172,    3;-  1058,   11;-   554,   50;   259,   81;  1670,  141;  3262,  159;  5176,  191;  7209,  203;  9579,  237;''"

definition raw_data_part2 :: string where
  "raw_data_part2 =
     '' 12350,  277; 15614,  326; 19307,  369; 23252,  394; 27419,  416; 31600,  418; 35996,  439; 40501,  450; 45333,  483; 50211,  487; 55019,  480; 59487,  446; 63623,  413; 67573,  395; 71467,  389; 75494,  402; 79404,  391; 83198,  379; 86602,  340; 89816,  321; 92988,  317; 96442,  345;100245,  380;104166,  392;107921,  375;111252,  333;114418,  316;117665,  324;121343,  367;125348,  400;129424,  407;133151,  372;136508,  335;139727,  321;143143,  341;147048,  390;151116,  406;155045,  392;158450,  340;161470,  302;164519,  304;168019,  350;172052,  403;176263,  421;180271,  400;183713,  344;186858,  314;190141,  328;193823,  368;197901,  407;201948,  404;205560,  361;208780,  322;212001,  322;215717,  371;''"

definition raw_data_part3 :: string where
  "raw_data_part3 =
     ''219993,  427;224475,  448;228629,  415;232190,  356;235418,  322;238739,  332;242564,  382;246714,  415;250869,  415;254796,  392;258477,  368;262264,  378;266308,  404;270555,  424;274658,  410;278441,  378;281989,  354;285583,  359;289494,  391;293559,  406;297577,  401;301309,  373;304931,  362;308729,  379;312813,  408;317088,  427;321111,  402;324738,  362;328026,  328;331496,  347;335477,  398;339889,  441;344478,  458;348586,  410;352182,  359;355576,  339;359150,  357;363188,  403;367373,  418;371372,  399;374939,  356;378310,  337;381948,  363;386018,  407;390483,  446;394801,  431;398700,  389;402177,  347;405466,  328;409104,  363;413187,  408;417642,  445;422136,  449;426467,  433;430637,  417;''"

definition raw_data_part4 :: string where
  "raw_data_part4 =
     ''434649,  401;438719,  407;442716,  399;446626,  391;450497,  387;454306,  380;458265,  395;462209,  394;    30,   30;462209,44376;466032,  382;469669,  363;473096,  342;476636,  354;480433,  379;484633,  420;489029,  439;493320,  429;497399,  407;501208,  380;505123,  391;509247,  412;513553,  430;517888,  433;521779,  389;525360,  358;528932,  357;532891,  395;537573,  468;542530,  495;547380,  485;551458,  407;554744,  328;557825,  308;561078,  325;565282,  420;570170,  488;575336,  516;580292,  495;584499,  420;588413,  391;592134,  372;596025,  389;600219,  419;604280,  406;608330,  405;611921,  359;615125,  320;617890,  276;620028,  213;622080,  205;623711,  163;625154,  144;626290,  113;626868,   57;''"

definition raw_data_part5 :: string where
  "raw_data_part5 =
     ''627336,   46;627534,   19;627534,    0;627534,    0;627534,    0;627534,    0;627534,    0;626783,   75;626691,    9;626691,    0;626691,    0;626691,    0;626691,    0;626806,   11;626807,    0;626830,    2;626989,   15;627572,   58;628466,   89;629388,   92;630247,   85;630785,   53;631162,   37;631509,   34;631941,   43;632676,   73;633568,   89;634574,  100;635511,   93;636218,   70;636775,   55;637161,   38;637599,   43;638198,   59;638945,   74;639794,   84;640472,   67;640909,   43;641107,   19;641278,   17;641710,   43;642426,   71;643362,   93;644155,   79;644568,   41;644610,    4;644649,    3;644750,   10;645345,   59;646276,   93;647307,  103;648082,   77;648551,   46;648829,   27;649192,   36;''"

definition raw_data_part6 :: string where
  "raw_data_part6 =
     ''649881,   68;650841,   96;651925,  108;652875,   95;653563,   68;654081,   51;654528,   44;655112,   58;655940,   82;656895,   95;657840,   94;658582,   74;659009,   42;659244,   23;659503,   25;660016,   51;660822,   80;661755,   93;662596,   84;663109,   51;663358,   24;663574,   21;664008,   43;664836,   82;665880,  104;666888,  100;667609,   72;667939,   33;668120,   18;668419,   29;669025,   60;669912,   88;670864,   95;671671,   80;672220,   54;672639,   41;673083,   44;673665,   58;674390,   72;675097,   70;675641,   54;675965,   32;676164,   19;676422,   25;676921,   49;677637,   71;678405,   76;679102,   69;679555,   45;679837,   28;680105,   26;680445,   34;680983,   53;681662,   67;682366,   70;''"

definition raw_data_part7 :: string where
  "raw_data_part7 =
     ''682983,   61;683439,   45;683810,   37;684190,   38;684721,   53;685424,   70;686216,   79;686992,   77;687583,   59;688028,   44;688409,   38;688816,   40;689404,   58;690056,   65;690653,   59;691125,   47;691382,   25;691574,   19;691836,   26;692250,   41;692859,   60;693518,   65;694119,   60;694603,   48;694954,   35;695250,   29;695564,   31;695955,   39;696422,   46;696966,   54;697558,   59;698112,   55;698644,   53;699141,   49;699608,   46;700113,   50;700613,   50;701119,   50;701641,   52;702149,   50;702726,   57;703382,   65;704085,   70;704813,   72;705463,   65;706010,   54;706495,   48;706998,   50;707636,   63;708386,   75;709171,   78;709807,   63;710178,   37;710352,   17;710465,   11;''"

definition raw_data_part8 :: string where
  "raw_data_part8 =
     ''710765,   30;711340,   57;712097,   75;712908,   81;713550,   64;714008,   45;714400,   39;714851,   45;715500,   64;716272,   77;717020,   74;717639,   61;718102,   46;718552,   45;719095,   54;719772,   67;720513,   74;721174,   66;721698,   52;722093,   39;722475,   38;722956,   48;723541,   58;724183,   64;724752,   56;725207,   45;725649,   44;726138,   48;726749,   61;727478,   72;728151,   67;728696,   54;729087,   39;729342,   25;729649,   30;730100,   45;730728,   62;731490,   76;732198,   70;732768,   57;733154,   38;733401,   24;   300,  300;778273, 750000;  25,  603;''"

definition raw_data_literal :: string where
  "raw_data_literal =
     raw_data_part1 @ raw_data_part2 @ raw_data_part3 @ raw_data_part4 @ raw_data_part5 @ raw_data_part6 @ raw_data_part7 @ raw_data_part8"

section \<open>Collaborators whose modules are outside the tester\<close>

text \<open>
  \<^verbatim>\<open>run_episode\<close> calls methods of objects it was constructed with.  Their
  behaviour is a parameter of the model:
  \<^item> \<open>receive_data\<close>: what \<^verbatim>\<open>UDPClient.receive_data\<close> would hand back at its
    \<open>i\<close>-th call, \<open>None\<close> when nothing arrived before its timeout;
  \<^item> \<open>parse_raw_data\<close> and \<open>create_filling_session\<close> of the data processor,
    \<open>None\<close> standing for the falsy result that the tester tests with
    \<^verbatim>\<open>if not ...\<close>;
  \<^item> \<open>calculate_reward\<close> of the reward calculator, applied to episode length,
    final weight and the method name.
\<close>

record collaborators =
  receive_data :: "nat \<Rightarrow> string option"
  parse_raw_data :: "string \<Rightarrow> episode_data option"
  create_filling_session :: "episode_data \<Rightarrow> filling_session option"
  calculate_reward :: "int \<Rightarrow> int \<Rightarrow> string \<Rightarrow> real"

section \<open>Running one episode\<close>

text \<open>
  One pass through the body of the \<^verbatim>\<open>while True\<close> loop (lines 121 to 129),
  for the value bound to \<^verbatim>\<open>raw_data\<close> in that pass.  A falsy value
  (\<^verbatim>\<open>None\<close> or the empty string) logs an error and continues; the increment of \<^verbatim>\<open>failed_episodes\<close> on line 127 is
  commented out, so the statistics pass through unchanged.
\<close>

datatype loop_outcome = Continue session_stats | Break string session_stats

definition await_iteration :: "string option \<Rightarrow> session_stats \<Rightarrow> loop_outcome" where
  "await_iteration bound st =
     (case bound of
        None \<Rightarrow> Continue st
      | Some s \<Rightarrow> if s = [] then Continue st else Break s st)"

text \<open>
  The loop itself, over the values bound to \<^verbatim>\<open>raw_data\<close> pass by pass.  It has
  no counter and no exit other than a truthy value, so it is a partial function:
  \<open>None\<close> is the loop that never leaves.
\<close>

partial_function (option) await_transcript ::
  "(nat \<Rightarrow> string option) \<Rightarrow> nat \<Rightarrow> session_stats \<Rightarrow> (string \<times> session_stats) option"
where
  "await_transcript bound i st =
     (case await_iteration (bound i) st of
        Continue st' \<Rightarrow> await_transcript bound (Suc i) st'
      | Break s st' \<Rightarrow> Some (s, st'))"

text \<open>The same loop cut off after a number of passes, for reasoning about it.\<close>

fun await_bounded ::
  "nat \<Rightarrow> (nat \<Rightarrow> string option) \<Rightarrow> nat \<Rightarrow> session_stats \<Rightarrow> (string \<times> session_stats) option"
where
  "await_bounded 0 bound i st = None"
| "await_bounded (Suc n) bound i st =
     (case await_iteration (bound i) st of
        Continue st' \<Rightarrow> await_bounded n bound (Suc i) st'
      | Break s st' \<Rightarrow> Some (s, st'))"

text \<open>A telemetry source from which nothing ever arrives.\<close>

definition no_telemetry :: "nat \<Rightarrow> string option" where
  "no_telemetry i = None"

text \<open>A telemetry source that is silent for three passes and then delivers one sample.\<close>

definition late_telemetry :: "nat \<Rightarrow> string option" where
  "late_telemetry k = (if k < 3 then None else Some ''1,1;'')"

text \<open>
  Lines 131 to 167: parse, build the filling session, score, update the
  statistics.  Saving to the database (line 162) catches its own exceptions and
  touches neither the statistics nor the returned dictionary.
\<close>

definition process_transcript ::
  "collaborators \<Rightarrow> string \<Rightarrow> session_stats \<Rightarrow> episode_data option \<times> session_stats" where
  "process_transcript c raw st =
     (case parse_raw_data c raw of
        None \<Rightarrow> (None, st\<lparr>failed_episodes := failed_episodes st + 1\<rparr>)
      | Some parsed_data \<Rightarrow>
          (case create_filling_session c parsed_data of
             None \<Rightarrow> (None, st\<lparr>failed_episodes := failed_episodes st + 1\<rparr>)
           | Some fs \<Rightarrow>
               (let r = calculate_reward c (episode_length fs) (session_final_weight fs) ''standard'';
                    parsed_data' = parsed_data\<lparr>reward := Some r, filling_session := Some fs\<rparr>
                in (Some parsed_data', update_session_stats parsed_data' st))))"

text \<open>
  \<^verbatim>\<open>run_episode\<close>: in every pass of the loop \<^verbatim>\<open>raw_data\<close> is bound to the
  literal; the collaborator's \<open>receive_data\<close> is not called.
\<close>

definition run_episode ::
  "collaborators \<Rightarrow> session_stats \<Rightarrow> (episode_data option \<times> session_stats) option" where
  "run_episode c st =
     (case await_transcript (\<lambda>i. Some raw_data_literal) 0 st of
        None \<Rightarrow> None
      | Some (raw, st') \<Rightarrow> Some (process_transcript c raw st'))"

text \<open>
  An episode attempt fails when the parser or the session builder hands back a
  falsy result (the two \<^verbatim>\<open>return None\<close> of lines 135 to 145).
\<close>

definition episode_fails :: "collaborators \<Rightarrow> string \<Rightarrow> bool" where
  "episode_fails c raw =
     (case parse_raw_data c raw of
        None \<Rightarrow> True
      | Some parsed_data \<Rightarrow> create_filling_session c parsed_data = None)"



text \<open>
  A sequence of calls of \<^verbatim>\<open>run_episode\<close> on the same tester.  Each call may
  meet different behaviour of the collaborators, so the sequence is given by one
  collaborator record per call; the results are collected in call order.
\<close>

fun run_episodes ::
  "collaborators list \<Rightarrow> session_stats \<Rightarrow> (episode_data option list \<times> session_stats) option"
where
  "run_episodes [] st = Some ([], st)"
| "run_episodes (c # cs) st =
     (case run_episode c st of
        None \<Rightarrow> None
      | Some (r, st') \<Rightarrow>
          (case run_episodes cs st' of
             None \<Rightarrow> None
           | Some (rs, st'') \<Rightarrow> Some (r # rs, st'')))"

section \<open>The agent testing loop: switching point and termination type\<close>

datatype py_exception = TypeError | ValueError | IndexError

text \<open>
  \<^verbatim>\<open>list.index(x)\<close>: the position of the first element equal to \<open>x\<close>;
  Python raises \<^verbatim>\<open>ValueError\<close> when there is none (\<open>None\<close> here).
\<close>

fun list_index :: "int list \<Rightarrow> int \<Rightarrow> nat option" where
  "list_index [] x = None"
| "list_index (y # ys) x = (if y = x then Some 0 else map_option Suc (list_index ys x))"

text \<open>
  \<^verbatim>\<open>xs[k]\<close> for a Python list: a negative index counts from the end, an index
  outside \<open>-len \<dots> len - 1\<close> raises \<^verbatim>\<open>IndexError\<close>.
\<close>

definition list_getitem :: "int list \<Rightarrow> int \<Rightarrow> py_exception + int" where
  "list_getitem xs k =
     (if 0 \<le> k \<and> k < int (length xs) then Inr (xs ! nat k)
      else if - int (length xs) \<le> k \<and> k < 0 then Inr (xs ! nat (int (length xs) + k))
      else Inl IndexError)"

text \<open>
  Line 244:
  \<^verbatim>\<open>episode_data['weight_sequence'][episode_data['weight_sequence'].index(-1) -1]\<close>.
\<close>

definition current_switch_point :: "episode_data \<Rightarrow> py_exception + int" where
  "current_switch_point ed =
     (case list_index (weight_sequence ed) (- 1) of
        None \<Rightarrow> Inl ValueError
      | Some i \<Rightarrow> list_getitem (weight_sequence ed) (int i - 1))"

text \<open>
  A small parsed episode for evaluating the functions above: three coarse
  samples, the marker, two fine samples.
\<close>

definition sample_episode :: episode_data where
  "sample_episode =
     \<lparr>raw_data = ''450000,1;454306,380;458265,395;30,30;462209,394;466032,382;'',
      weight_sequence = [450000, 454306, 458265, - 1, 462209, 466032],
      coarse_time = 3, fine_time = 2, total_time = 5, switching_point = 458265,
      final_weight = 466032, overflow_amount = 0, underflow_amount = 273968,
      reward = None, filling_session = None\<rparr>"

text \<open>
  Collaborators of a tester whose device never sends anything, while parser,
  session builder and reward calculator work: \<open>receive_data\<close> would time out at
  every call.
\<close>

definition silent_device :: collaborators where
  "silent_device =
     \<lparr>receive_data = no_telemetry,
      parse_raw_data = (\<lambda>raw. Some sample_episode),
      create_filling_session =
        (\<lambda>ed. Some \<lparr>episode_length = total_time ed, session_final_weight = final_weight ed\<rparr>),
      calculate_reward = (\<lambda>n w m. 0)\<rparr>"

text \<open>
  Lines 55 to 58: the safe band scaled to raw device units, as handed to the
  data processor.
\<close>

definition real_tolerance_limits :: "int \<Rightarrow> int \<times> int" where
  "real_tolerance_limits quantization_step =
     (DEFAULT_SAFE_WEIGHT_MIN * quantization_step, DEFAULT_SAFE_WEIGHT_MAX * quantization_step)"

text \<open>
  Lines 250 to 256.  \<open>safe_weight_min\<close> and \<open>safe_weight_max\<close> are the attributes
  of the reward calculator, \<open>quantization_step\<close> the attribute of the data
  processor.
\<close>

definition termination_type :: "int \<Rightarrow> int \<Rightarrow> int \<Rightarrow> int \<Rightarrow> string" where
  "termination_type safe_weight_min safe_weight_max quantization_step fw =
     (if fw < safe_weight_min * quantization_step then ''underweight''
      else if fw > safe_weight_max * quantization_step then ''overweight''
      else ''safe'')"

section \<open>The Excel report\<close>

text \<open>A solid pattern fill, identified by its colour code.\<close>

definition green_fill :: string where
  "green_fill = ''C6EFCE''"

definition yellow_fill :: string where
  "yellow_fill = ''FFEB9C''"

definition red_fill :: string where
  "red_fill = ''FFC7CE''"

text \<open>
  Lines 88 to 90: the dictionary from result label to fill, looked up with
  \<^verbatim>\<open>.get(value, green_fill)\<close>.
\<close>

definition termination_fill :: "string \<Rightarrow> string" where
  "termination_fill v =
     (case map_of [(''Normal'', green_fill), (''Underflow'', yellow_fill), (''Overflow'', red_fill)] v of
        Some f \<Rightarrow> f
      | None \<Rightarrow> green_fill)"

text \<open>
  The fill of the two cells of the \<^verbatim>\<open>Result\<close> row for an episode record built
  by \<^verbatim>\<open>run_agent_testing\<close>: the record's \<^verbatim>\<open>termination_type\<close> is the string
  computed on lines 250 to 256, and the report reads it back with
  \<^verbatim>\<open>episode_info.get('termination_type', 'Normal')\<close>.
\<close>

definition report_result_fill :: "int \<Rightarrow> int \<Rightarrow> int \<Rightarrow> int \<Rightarrow> string" where
  "report_result_fill safe_weight_min safe_weight_max quantization_step fw =
     termination_fill (termination_type safe_weight_min safe_weight_max quantization_step fw)"

section \<open>Manual testing\<close>

definition connect_devices :: "bool \<Rightarrow> bool \<Rightarrow> bool" where
  "connect_devices udp_connected modbus_connected = (udp_connected \<and> modbus_connected)"

text \<open>
  A call \<^verbatim>\<open>self.run_episode(*args)\<close>.  The method is declared as
  \<^verbatim>\<open>def run_episode(self)\<close>: any positional argument raises
  \<^verbatim>\<open>TypeError\<close> before the body runs.
\<close>

definition call_run_episode ::
  "real list \<Rightarrow> collaborators \<Rightarrow> session_stats \<Rightarrow>
     py_exception + (episode_data option \<times> session_stats) option" where
  "call_run_episode args c st = (if args \<noteq> [] then Inl TypeError else Inr (run_episode c st))"

text \<open>
  The \<^verbatim>\<open>for\<close> loop of lines 335 to 346 inside its \<^verbatim>\<open>try\<close>: an exception
  raised in the body is caught by \<^verbatim>\<open>except Exception\<close>, which is outside the
  loop, so the loop ends with the episodes appended so far.
\<close>

fun manual_loop ::
  "collaborators \<Rightarrow> real list \<Rightarrow> episode_data list \<Rightarrow> session_stats \<Rightarrow>
     (episode_data list \<times> session_stats) option"
where
  "manual_loop c [] episodes st = Some (episodes, st)"
| "manual_loop c (sp # rest) episodes st =
     (case call_run_episode [sp] c st of
        Inl exn \<Rightarrow> Some (episodes, st)
      | Inr None \<Rightarrow> None
      | Inr (Some (None, st')) \<Rightarrow> manual_loop c rest episodes st'
      | Inr (Some (Some ed, st')) \<Rightarrow> manual_loop c rest (episodes @ [ed]) st')"

definition run_manual_testing ::
  "bool \<Rightarrow> bool \<Rightarrow> collaborators \<Rightarrow> real list \<Rightarrow> session_stats \<Rightarrow>
     (episode_data list \<times> session_stats) option" where
  "run_manual_testing udp_connected modbus_connected c switching_points st =
     (if \<not> connect_devices udp_connected modbus_connected then Some ([], st)
      else manual_loop c switching_points [] st)"

section \<open>Outcome amounts and penalties\<close>

datatype termination_class = Safe | Overflow | Underflow

text \<open>
  Modelled from the spec: the data processor (\<^verbatim>\<open>real_data_processor.py\<close>) that
  computes \<^verbatim>\<open>overflow_amount\<close> and \<^verbatim>\<open>underflow_amount\<close> is not among the
  sources.  Section 4.2 of the specification: a final weight below \<open>min * step\<close> is
  an underflow by \<open>min * step - finalWeight\<close>, one above \<open>max * step\<close> an overflow by
  \<open>finalWeight - max * step\<close>, anything else safe with both amounts zero.  The
  result is the class, the overflow amount and the underflow amount.
\<close>

definition segment_outcome :: "int \<Rightarrow> int \<Rightarrow> int \<Rightarrow> int \<Rightarrow> termination_class \<times> int \<times> int" where
  "segment_outcome band_min band_max step fw =
     (if fw < band_min * step then (Underflow, 0, band_min * step - fw)
      else if fw > band_max * step then (Overflow, fw - band_max * step, 0)
      else (Safe, 0, 0))"

text \<open>
  Modelled from the spec: the reward calculator (\<^verbatim>\<open>reward_calculator.py\<close>) is
  not among the sources.  Section 4.3 of the specification: the overflow reward is
  the overflow penalty constant times the overflow amount.
\<close>

definition overflow_reward :: "real \<Rightarrow> real \<Rightarrow> real" where
  "overflow_reward overflow_penalty_constant amount = overflow_penalty_constant * amount"

text \<open>
  Modelled from the spec: the reward calculator (\<^verbatim>\<open>reward_calculator.py\<close>) is
  not among the sources.  Section 4.3 of the specification: the underflow reward
  is the underflow penalty constant times the underflow amount.
\<close>

definition underflow_reward :: "real \<Rightarrow> real \<Rightarrow> real" where
  "underflow_reward underflow_penalty_constant amount = underflow_penalty_constant * amount"

section \<open>Facts about the await loop\<close>

lemma raw_data_literal_nonempty: "raw_data_literal \<noteq> []"
  by (simp add: raw_data_literal_def raw_data_part1_def)

lemma await_literal:
  "await_transcript (\<lambda>i. Some raw_data_literal) i st = Some (raw_data_literal, st)"
  by (subst await_transcript.simps) (simp add: await_iteration_def raw_data_literal_nonempty)

lemma await_bounded_sound:
  "await_bounded n bound i st = Some r \<Longrightarrow> await_transcript bound i st = Some r"
proof (induction n arbitrary: i st)
  case 0
  then show ?case by simp
next
  case (Suc n)
  show ?case
  proof (cases "await_iteration (bound i) st")
    case (Continue st')
    then have "await_bounded n bound (Suc i) st' = Some r"
      using Suc.prems by simp
    then have "await_transcript bound (Suc i) st' = Some r"
      by (rule Suc.IH)
    then show ?thesis
      using Continue by (subst await_transcript.simps) simp
  next
    case (Break s st')
    then show ?thesis
      using Suc.prems by (subst await_transcript.simps) simp
  qed
qed

lemma run_episode_total: "run_episode c st = Some (process_transcript c raw_data_literal st)"
  by (simp add: run_episode_def await_literal)

lemma process_transcript_fails:
  assumes "episode_fails c raw"
  shows "process_transcript c raw st = (None, st\<lparr>failed_episodes := failed_episodes st + 1\<rparr>)"
  using assms by (auto simp: episode_fails_def process_transcript_def split: option.splits)

lemma process_transcript_succeeds:
  assumes "\<not> episode_fails c raw"
  shows "\<exists>ed. process_transcript c raw st = (Some ed, update_session_stats ed st)"
  using assms
  by (auto simp: episode_fails_def process_transcript_def Let_def split: option.splits)

section \<open>Failure accounting\<close>



section \<open>The default-configuration overflow scenario\<close>

text \<open>
  C3: under the default configuration the scaled band is 740000 to 760000; a
  final weight of 778273 is classified as overweight by the testing loop, is an
  overflow by 18273, and its reward, the overflow penalty constant times that
  amount, is minus 370 times 18273 and strictly negative.
\<close>

theorem default_overflow_scenario:
  "real_tolerance_limits DEFAULT_WEIGHT_QUANTIZATION_STEP = (740000, 760000)
   \<and> termination_type DEFAULT_SAFE_WEIGHT_MIN DEFAULT_SAFE_WEIGHT_MAX
        DEFAULT_WEIGHT_QUANTIZATION_STEP 778273 = ''overweight''
   \<and> segment_outcome DEFAULT_SAFE_WEIGHT_MIN DEFAULT_SAFE_WEIGHT_MAX
        DEFAULT_WEIGHT_QUANTIZATION_STEP 778273 = (Overflow, 18273, 0)
   \<and> 778273 - 760000 = (18273 :: int)
   \<and> overflow_reward DEFAULT_OVERFLOW_PENALTY_CONSTANT 18273 = - 370 * 18273
   \<and> overflow_reward DEFAULT_OVERFLOW_PENALTY_CONSTANT 18273 < 0"
  by (simp add: real_tolerance_limits_def termination_type_def segment_outcome_def
        overflow_reward_def DEFAULT_SAFE_WEIGHT_MIN_def DEFAULT_SAFE_WEIGHT_MAX_def
        DEFAULT_WEIGHT_QUANTIZATION_STEP_def DEFAULT_OVERFLOW_PENALTY_CONSTANT_def)

section \<open>The experienced switching point\<close>

lemma list_index_first:
  "list_index xs x = Some i \<Longrightarrow> i < length xs \<and> xs ! i = x \<and> (\<forall>j<i. xs ! j \<noteq> x)"
proof (induction xs arbitrary: i)
  case Nil
  then show ?case by simp
next
  case (Cons y ys)
  show ?case
  proof (cases "y = x")
    case True
    then show ?thesis using Cons.prems by auto
  next
    case False
    then obtain k where k: "list_index ys x = Some k" "i = Suc k"
      using Cons.prems by auto
    have ih: "k < length ys \<and> ys ! k = x \<and> (\<forall>j<k. ys ! j \<noteq> x)"
      using Cons.IH [OF k(1)] .
    have "\<forall>j<Suc k. (y # ys) ! j \<noteq> x"
    proof (intro allI impI)
      fix j assume "j < Suc k"
      then show "(y # ys) ! j \<noteq> x"
        using False ih by (cases j) auto
    qed
    then show ?thesis using ih k(2) by simp
  qed
qed

lemma list_index_complete:
  "i < length xs \<Longrightarrow> xs ! i = x \<Longrightarrow> (\<forall>j<i. xs ! j \<noteq> x) \<Longrightarrow> list_index xs x = Some i"
proof (induction xs arbitrary: i)
  case Nil
  then show ?case by simp
next
  case (Cons y ys)
  show ?case
  proof (cases i)
    case 0
    then show ?thesis using Cons.prems by simp
  next
    case (Suc k)
    have ne: "y \<noteq> x" using Cons.prems(3) Suc by force
    have "\<forall>j<k. ys ! j \<noteq> x"
    proof (intro allI impI)
      fix j assume "j < k"
      then have "Suc j < i" using Suc by simp
      then have "(y # ys) ! Suc j \<noteq> x" using Cons.prems(3) by blast
      then show "ys ! j \<noteq> x" by simp
    qed
    then have "list_index ys x = Some k"
      using Cons.IH [of k] Cons.prems Suc by simp
    then show ?thesis using ne Suc by simp
  qed
qed

text \<open>
  C4: whenever the first occurrence of the marker sentinel \<open>-1\<close> in the weight
  sequence of a parsed episode is at a position \<open>i\<close> that has a predecessor, the
  experienced switching point is the weight at position \<open>i - 1\<close>, the sample
  immediately preceding the marker.
\<close>

theorem switch_point_precedes_marker:
  assumes "i < length (weight_sequence ed)"
    and "weight_sequence ed ! i = - 1"
    and "\<forall>j<i. weight_sequence ed ! j \<noteq> - 1"
    and "0 < i"
  shows "current_switch_point ed = Inr (weight_sequence ed ! (i - 1))"
proof -
  have idx: "list_index (weight_sequence ed) (- 1) = Some i"
    using assms(1-3) by (rule list_index_complete)
  have "0 \<le> int i - 1" "int i - 1 < int (length (weight_sequence ed))"
    using assms(1,4) by auto
  moreover have "nat (int i - 1) = i - 1" by simp
  ultimately show ?thesis
    using idx by (simp add: current_switch_point_def list_getitem_def)
qed

theorem switch_point_precedes_marker_witness:
  "3 < length (weight_sequence sample_episode)
   \<and> weight_sequence sample_episode ! 3 = - 1
   \<and> weight_sequence sample_episode ! 0 \<noteq> - 1
   \<and> weight_sequence sample_episode ! 1 \<noteq> - 1
   \<and> weight_sequence sample_episode ! 2 \<noteq> - 1
   \<and> current_switch_point sample_episode = Inr 458265"
proof -
  have h1: "3 < length (weight_sequence sample_episode)"
    by (simp add: sample_episode_def)
  have h2: "weight_sequence sample_episode ! 3 = - 1"
    by (simp add: sample_episode_def)
  have h3: "\<forall>j<3. weight_sequence sample_episode ! j \<noteq> - 1"
  proof (intro allI impI)
    fix j :: nat assume "j < 3"
    then have "j = 0 \<or> j = 1 \<or> j = 2" by auto
    then show "weight_sequence sample_episode ! j \<noteq> - 1"
      by (auto simp: sample_episode_def)
  qed
  have h4: "(0::nat) < 3" by simp
  have "current_switch_point sample_episode = Inr (weight_sequence sample_episode ! (3 - 1))"
    using switch_point_precedes_marker [OF h1 h2 h3 h4] .
  moreover have "weight_sequence sample_episode ! (3 - 1) = 458265"
    by (simp add: sample_episode_def)
  moreover have "weight_sequence sample_episode ! 0 \<noteq> - 1
                 \<and> weight_sequence sample_episode ! 1 \<noteq> - 1
                 \<and> weight_sequence sample_episode ! 2 \<noteq> - 1"
    by (simp add: sample_episode_def)
  ultimately show ?thesis using h1 h2 by simp
qed

text \<open>
  Outside that case the expression of line 244 does what Python does: a marker in
  first position makes the index \<open>-1\<close>, which reads the last element of the
  sequence, and a sequence without marker raises \<^verbatim>\<open>ValueError\<close>.
\<close>

lemma switch_point_marker_first:
  assumes "weight_sequence ed = - 1 # rest"
  shows "current_switch_point ed = Inr (last (- 1 # rest))"
proof -
  have "nat (int (length rest)) = length rest" by simp
  then show ?thesis
    using assms
    by (simp add: current_switch_point_def list_getitem_def last_conv_nth
          del: last.simps nat_int)
qed

lemma list_index_absent: "x \<notin> set xs \<Longrightarrow> list_index xs x = None"
  by (induction xs) auto

lemma switch_point_no_marker:
  assumes "- 1 \<notin> set (weight_sequence ed)"
  shows "current_switch_point ed = Inl ValueError"
  using assms by (simp add: current_switch_point_def list_index_absent)

section \<open>Independence of the episode from the telemetry collaborator\<close>

lemma process_transcript_receive_data:
  "process_transcript (c\<lparr>receive_data := r\<rparr>) raw st = process_transcript c raw st"
  by (simp add: process_transcript_def split: option.splits)

text \<open>
  C5: the transcript that \<^verbatim>\<open>run_episode\<close> parses is the literal bound in its
  loop, and the outcome of \<^verbatim>\<open>run_episode\<close> is the same whatever the telemetry
  collaborator would deliver: replacing \<open>receive_data\<close> by any other behaviour
  changes nothing.
\<close>

theorem run_episode_ignores_telemetry:
  "await_transcript (\<lambda>i. Some raw_data_literal) 0 st = Some (raw_data_literal, st)
   \<and> run_episode c st = Some (process_transcript c raw_data_literal st)
   \<and> run_episode (c\<lparr>receive_data := r\<rparr>) st = run_episode c st"
  by (simp add: run_episode_total await_literal process_transcript_receive_data)

section \<open>Awaiting a transcript when the device is silent\<close>

text \<open>
  C2 (as stated, refuted): with a device that never sends anything,
  \<^verbatim>\<open>run_episode\<close> does not end in a connectivity failure or any other
  failure.  It returns an episode, built from the transcript bound in its loop,
  and the statistics count one successful episode and no failed one.
\<close>

theorem silent_device_episode_succeeds:
  "receive_data silent_device 0 = None
   \<and> run_episode silent_device init_session_stats
     = Some (Some (sample_episode
                    \<lparr>reward := Some 0,
                     filling_session := Some \<lparr>episode_length = 5, session_final_weight = 466032\<rparr>\<rparr>),
             init_session_stats
               \<lparr>total_episodes := 1, successful_episodes := 1, underflow_episodes := 1\<rparr>)
   \<and> failed_episodes
       (init_session_stats
          \<lparr>total_episodes := 1, successful_episodes := 1, underflow_episodes := 1\<rparr>) = 0"
  by (simp add: run_episode_total process_transcript_def update_session_stats_def
        silent_device_def sample_episode_def no_telemetry_def init_session_stats_def)

text \<open>
  C2 (amended): the await loop of \<^verbatim>\<open>run_episode\<close> never retries.  Its single
  pass binds the in-code transcript and leaves (one pass is enough for the loop to
  return), also when the telemetry collaborator would deliver nothing at all;
  the call then goes on to parse that transcript.  There is no escalation to
  session termination.
\<close>

theorem await_leaves_in_first_pass:
  "await_bounded (Suc 0) (\<lambda>i. Some raw_data_literal) 0 st = Some (raw_data_literal, st)
   \<and> await_transcript (\<lambda>i. Some raw_data_literal) 0 st = Some (raw_data_literal, st)
   \<and> run_episode (c\<lparr>receive_data := no_telemetry\<rparr>) st
     = Some (process_transcript c raw_data_literal st)"
proof -
  have b: "await_bounded (Suc 0) (\<lambda>i. Some raw_data_literal) 0 st = Some (raw_data_literal, st)"
    by (simp add: await_iteration_def raw_data_literal_nonempty)
  have t: "await_transcript (\<lambda>i. Some raw_data_literal) 0 st = Some (raw_data_literal, st)"
    using b by (rule await_bounded_sound)
  have "run_episode (c\<lparr>receive_data := no_telemetry\<rparr>) st
          = Some (process_transcript c raw_data_literal st)"
    by (simp add: run_episode_def t process_transcript_receive_data)
  with b t show ?thesis by blast
qed

section \<open>Colouring of the result row\<close>

text \<open>
  C6 (the code at a failing input): under the default configuration an episode
  with final weight 778273 is labelled \<open>overweight\<close> by the testing loop; the
  report's dictionary has no such key, so the result cells get the default green
  fill and not the red one that the label \<open>Overflow\<close> would get.  An underweight
  episode (final weight 700000) is coloured green as well, not yellow.
\<close>

theorem overweight_result_is_green:
  "termination_type DEFAULT_SAFE_WEIGHT_MIN DEFAULT_SAFE_WEIGHT_MAX
     DEFAULT_WEIGHT_QUANTIZATION_STEP 778273 = ''overweight''
   \<and> report_result_fill DEFAULT_SAFE_WEIGHT_MIN DEFAULT_SAFE_WEIGHT_MAX
        DEFAULT_WEIGHT_QUANTIZATION_STEP 778273 = green_fill
   \<and> termination_fill ''Overflow'' = red_fill
   \<and> green_fill \<noteq> red_fill
   \<and> termination_type DEFAULT_SAFE_WEIGHT_MIN DEFAULT_SAFE_WEIGHT_MAX
        DEFAULT_WEIGHT_QUANTIZATION_STEP 700000 = ''underweight''
   \<and> report_result_fill DEFAULT_SAFE_WEIGHT_MIN DEFAULT_SAFE_WEIGHT_MAX
        DEFAULT_WEIGHT_QUANTIZATION_STEP 700000 = green_fill
   \<and> termination_fill ''Underflow'' = yellow_fill
   \<and> green_fill \<noteq> yellow_fill"
  by (simp add: report_result_fill_def termination_fill_def termination_type_def
        green_fill_def red_fill_def yellow_fill_def DEFAULT_SAFE_WEIGHT_MIN_def
        DEFAULT_SAFE_WEIGHT_MAX_def DEFAULT_WEIGHT_QUANTIZATION_STEP_def)

section \<open>Asymmetry of the penalties\<close>

text \<open>
  C7: for every positive deviation \<open>d\<close>, the overflow reward for \<open>d\<close> is strictly
  below the underflow reward for the same \<open>d\<close>, and the default overflow penalty
  constant is strictly larger in absolute value than the default underflow
  penalty constant.
\<close>

theorem overflow_penalty_dominates:
  assumes "0 < d"
  shows "overflow_reward DEFAULT_OVERFLOW_PENALTY_CONSTANT d
           < underflow_reward DEFAULT_UNDERFLOW_PENALTY_CONSTANT d
         \<and> \<bar>DEFAULT_UNDERFLOW_PENALTY_CONSTANT\<bar> < \<bar>DEFAULT_OVERFLOW_PENALTY_CONSTANT\<bar>"
  using assms
  by (simp add: overflow_reward_def underflow_reward_def
        DEFAULT_OVERFLOW_PENALTY_CONSTANT_def DEFAULT_UNDERFLOW_PENALTY_CONSTANT_def)

theorem overflow_penalty_dominates_witness:
  "(0::real) < 18273
   \<and> overflow_reward DEFAULT_OVERFLOW_PENALTY_CONSTANT 18273 = - 6761010
   \<and> underflow_reward DEFAULT_UNDERFLOW_PENALTY_CONSTANT 18273 = - 1827300
   \<and> overflow_reward DEFAULT_OVERFLOW_PENALTY_CONSTANT 18273
       < underflow_reward DEFAULT_UNDERFLOW_PENALTY_CONSTANT 18273"
proof -
  have h: "(0::real) < 18273" by simp
  show ?thesis
    using h overflow_penalty_dominates [OF h]
    by (simp add: overflow_reward_def underflow_reward_def
          DEFAULT_OVERFLOW_PENALTY_CONSTANT_def DEFAULT_UNDERFLOW_PENALTY_CONSTANT_def)
qed

section \<open>The exploration step distribution\<close>

text \<open>
  C8: the configured exploration distribution pairs the step distances 1 to 5
  with the probabilities 0.33, 0.27, 0.20, 0.13 and 0.07; the probabilities sum
  to exactly 1 and are strictly decreasing in the step distance.
\<close>

theorem exploration_distribution_categorical:
  "exploration_distribution = [(1, 0.33), (2, 0.27), (3, 0.20), (4, 0.13), (5, 0.07)]
   \<and> sum_list EXPLORATION_PROBABILITIES = 1
   \<and> strictly_decreasing EXPLORATION_PROBABILITIES"
  by (simp add: exploration_distribution_def EXPLORATION_STEPS_def EXPLORATION_PROBABILITIES_def)

section \<open>The invariant of the session statistics\<close>

lemma update_session_stats_counts:
  "total_episodes (update_session_stats ed st) = total_episodes st + 1
   \<and> successful_episodes (update_session_stats ed st) = successful_episodes st + 1
   \<and> failed_episodes (update_session_stats ed st) = failed_episodes st
   \<and> safe_episodes (update_session_stats ed st) + overflow_episodes (update_session_stats ed st)
       + underflow_episodes (update_session_stats ed st)
     = safe_episodes st + overflow_episodes st + underflow_episodes st + 1"
  by (simp add: update_session_stats_def Let_def)

lemma run_episode_counts:
  "\<exists>r st'. run_episode c st = Some (r, st')
     \<and> total_episodes st' = total_episodes st + (if r = None then 0 else 1)
     \<and> successful_episodes st' = successful_episodes st + (if r = None then 0 else 1)
     \<and> failed_episodes st' = failed_episodes st + (if r = None then 1 else 0)
     \<and> safe_episodes st' + overflow_episodes st' + underflow_episodes st'
       = safe_episodes st + overflow_episodes st + underflow_episodes st
         + (if r = None then 0 else 1)"
proof (cases "episode_fails c raw_data_literal")
  case True
  then show ?thesis
    by (simp add: run_episode_total process_transcript_fails)
next
  case False
  then obtain ed where
    "process_transcript c raw_data_literal st = (Some ed, update_session_stats ed st)"
    using process_transcript_succeeds by blast
  then show ?thesis
    by (simp add: run_episode_total update_session_stats_counts)
qed

lemma run_episodes_counts:
  "\<exists>rs st'. run_episodes cs st = Some (rs, st')
     \<and> length rs = length cs
     \<and> total_episodes st' = total_episodes st + int (length (filter (\<lambda>r. r \<noteq> None) rs))
     \<and> successful_episodes st'
       = successful_episodes st + int (length (filter (\<lambda>r. r \<noteq> None) rs))
     \<and> failed_episodes st' = failed_episodes st + int (length (filter (\<lambda>r. r = None) rs))
     \<and> safe_episodes st' + overflow_episodes st' + underflow_episodes st'
       = safe_episodes st + overflow_episodes st + underflow_episodes st
         + int (length (filter (\<lambda>r. r \<noteq> None) rs))"
proof (induction cs arbitrary: st)
  case Nil
  show ?case by simp
next
  case (Cons c cs)
  obtain r st1 where one: "run_episode c st = Some (r, st1)"
    and c1: "total_episodes st1 = total_episodes st + (if r = None then 0 else 1)"
    and c2: "successful_episodes st1 = successful_episodes st + (if r = None then 0 else 1)"
    and c3: "failed_episodes st1 = failed_episodes st + (if r = None then 1 else 0)"
    and c4: "safe_episodes st1 + overflow_episodes st1 + underflow_episodes st1
               = safe_episodes st + overflow_episodes st + underflow_episodes st
                 + (if r = None then 0 else 1)"
    using run_episode_counts [of c st] by blast
  obtain rs st2 where rest: "run_episodes cs st1 = Some (rs, st2)"
    and l: "length rs = length cs"
    and d1: "total_episodes st2
               = total_episodes st1 + int (length (filter (\<lambda>r. r \<noteq> None) rs))"
    and d2: "successful_episodes st2
               = successful_episodes st1 + int (length (filter (\<lambda>r. r \<noteq> None) rs))"
    and d3: "failed_episodes st2
               = failed_episodes st1 + int (length (filter (\<lambda>r. r = None) rs))"
    and d4: "safe_episodes st2 + overflow_episodes st2 + underflow_episodes st2
               = safe_episodes st1 + overflow_episodes st1 + underflow_episodes st1
                 + int (length (filter (\<lambda>r. r \<noteq> None) rs))"
    using Cons.IH [of st1] by blast
  have run: "run_episodes (c # cs) st = Some (r # rs, st2)"
    using one rest by simp
  show ?case
  proof (cases "r = None")
    case True
    then show ?thesis using run l c1 c2 c3 c4 d1 d2 d3 d4 by simp
  next
    case False
    then show ?thesis using run l c1 c2 c3 c4 d1 d2 d3 d4 by simp
  qed
qed

text \<open>
  C9: from the all-zero counters, every sequence of \<^verbatim>\<open>run_episode\<close> calls
  returns and leaves statistics in which \<open>total_episodes\<close> equals
  \<open>successful_episodes\<close>, which equals the sum of the safe, overflow and underflow
  counters; the total is the number of calls that returned an episode, and the
  calls that failed are counted in \<open>failed_episodes\<close> only.
\<close>

theorem session_stats_invariant:
  "\<exists>rs st. run_episodes cs init_session_stats = Some (rs, st)
     \<and> length rs = length cs
     \<and> total_episodes st = successful_episodes st
     \<and> successful_episodes st = safe_episodes st + overflow_episodes st + underflow_episodes st
     \<and> total_episodes st = int (length (filter (\<lambda>r. r \<noteq> None) rs))
     \<and> failed_episodes st = int (length (filter (\<lambda>r. r = None) rs))"
proof -
  obtain rs st where "run_episodes cs init_session_stats = Some (rs, st)"
    and "length rs = length cs"
    and "total_episodes st
           = total_episodes init_session_stats + int (length (filter (\<lambda>r. r \<noteq> None) rs))"
    and "successful_episodes st
           = successful_episodes init_session_stats + int (length (filter (\<lambda>r. r \<noteq> None) rs))"
    and "failed_episodes st
           = failed_episodes init_session_stats + int (length (filter (\<lambda>r. r = None) rs))"
    and "safe_episodes st + overflow_episodes st + underflow_episodes st
           = safe_episodes init_session_stats + overflow_episodes init_session_stats
             + underflow_episodes init_session_stats
             + int (length (filter (\<lambda>r. r \<noteq> None) rs))"
    using run_episodes_counts [of cs init_session_stats] by blast
  then show ?thesis
    by (simp add: init_session_stats_def)
qed

section \<open>Manual testing never records an episode\<close>

text \<open>
  C10: for every non-empty list of switching points, the first call
  \<^verbatim>\<open>run_episode(switching_point)\<close> raises \<^verbatim>\<open>TypeError\<close>, the handler around
  the loop catches it, and \<^verbatim>\<open>run_manual_testing\<close> returns the empty episode
  list with the statistics untouched, whether or not the devices connected.
\<close>

theorem run_manual_testing_returns_empty:
  assumes "switching_points \<noteq> []"
  shows "call_run_episode [hd switching_points] c st = Inl TypeError
         \<and> run_manual_testing udp_connected modbus_connected c switching_points st
             = Some ([], st)"
proof -
  obtain sp rest where sps: "switching_points = sp # rest"
    using assms by (cases switching_points) auto
  have call: "call_run_episode [sp] c st = Inl TypeError"
    by (simp add: call_run_episode_def)
  then have "manual_loop c switching_points [] st = Some ([], st)"
    using sps by simp
  then show ?thesis
    using call sps by (simp add: run_manual_testing_def)
qed

theorem run_manual_testing_returns_empty_witness:
  "[45, 46.5] \<noteq> ([] :: real list)
   \<and> run_manual_testing True True
       \<lparr>receive_data = late_telemetry, parse_raw_data = (\<lambda>raw. Some sample_episode),
        create_filling_session =
          (\<lambda>ed. Some \<lparr>episode_length = total_time ed, session_final_weight = final_weight ed\<rparr>),
        calculate_reward = (\<lambda>n w m. 0)\<rparr>
       [45, 46.5] init_session_stats
     = Some ([], init_session_stats)"
proof -
  have h: "[45, 46.5] \<noteq> ([] :: real list)" by simp
  show ?thesis
    using h run_manual_testing_returns_empty [OF h] by simp
qed

end
